theory Spec2Isabelle
  imports Main "HOL-Library.Sublist"
begin

section \<open>QQuickCLContext: data model\<close>

text \<open>
  The model follows \<^verbatim>\<open>src/quickcl/qquickclcontext.cpp\<close>. Opaque native handles
  (\<^verbatim>\<open>cl_platform_id\<close>, \<^verbatim>\<open>cl_device_id\<close>, \<^verbatim>\<open>cl_context\<close>, \<^verbatim>\<open>cl_program\<close>, and the
  pointers of the windowing system) are natural numbers, the null pointer being \<open>0\<close>.
  Native error codes (\<^verbatim>\<open>cl_int\<close>) are integers.
\<close>

type_synonym cl_handle = nat
type_synonym cl_int = int

definition CL_SUCCESS :: cl_int where
  "CL_SUCCESS = 0"

text \<open>\<^verbatim>\<open>class QQuickCLContextPrivate\<close>: the three handles the instance owns.\<close>

record QQuickCLContextPrivate =
  platform :: cl_handle
  device :: cl_handle
  "context" :: cl_handle

text \<open>The state the constructor builds: \<^verbatim>\<open>platform(0), device(0), context(0)\<close>.\<close>

definition QQuickCLContextPrivate_init :: QQuickCLContextPrivate where
  "QQuickCLContextPrivate_init = \<lparr>platform = 0, device = 0, context = 0\<rparr>"

subsection \<open>Observable effects\<close>

text \<open>
  Every \<^verbatim>\<open>qWarning\<close> and \<^verbatim>\<open>qCDebug\<close> of the file is one constructor, carrying the values
  the format string prints.
\<close>

datatype msg =
    Dbg_Creating
  | Warn_NoCurrentGLContext
  | Warn_PlatformIDCount cl_int
  | Warn_NoImplementation
  | Warn_NoPlatform
  | Warn_PlatformIDs
  | Dbg_GLVendor "string option"
  | Dbg_FoundPlatforms nat
  | Dbg_Platform cl_handle string
  | Dbg_UsingPlatform cl_handle
  | Warn_ANGLE
  | Warn_NoEGLContext
  | Warn_NoGLXContext
  | Warn_CreateContext cl_int
  | Dbg_UsingContext cl_handle
  | Warn_DeviceForScreen cl_int
  | Warn_GetDevice cl_int
  | Dbg_UsingDevice cl_handle
  | Dbg_Releasing cl_handle
  | Warn_CreateProgram cl_int
  | Warn_SourceWas string
  | Warn_BuildProgram cl_int
  | Warn_BuildLog string
  | Warn_UnrecognizedFormat int

text \<open>
  An event is a logged message or the one native call of the file that gives a
  resource back, \<^verbatim>\<open>clReleaseContext\<close>.
\<close>

datatype event = Log msg | Call_clReleaseContext cl_handle

subsection \<open>Byte arrays and C strings\<close>

definition NUL :: char where
  "NUL = CHR 0x00"

text \<open>What \<^verbatim>\<open>%s\<close> prints and \<^verbatim>\<open>strlen\<close> measures: the bytes before the first NUL.\<close>

definition c_str :: "string \<Rightarrow> string" where
  "c_str bs = takeWhile (\<lambda>c. c \<noteq> NUL) bs"

text \<open>
  A native query is given a buffer and its size and stores bytes at the front of
  it. \<open>stored n w buf\<close> is the buffer afterwards, when the query stores the bytes
  \<open>w\<close> (at most \<open>n\<close> of them) into the \<open>n\<close>-byte buffer \<open>buf\<close>.
\<close>

definition stored :: "nat \<Rightarrow> 'a list \<Rightarrow> 'a list \<Rightarrow> 'a list" where
  "stored n w buf = take n w @ drop (length (take n w)) buf"

text \<open>
  \<^verbatim>\<open>strstr(s, tok) != 0\<close> and \<^verbatim>\<open>QByteArray::contains(tok)\<close>: \<open>tok\<close> occurs in \<open>s\<close> as a
  contiguous, case-sensitive run of bytes.
\<close>

fun contains :: "string \<Rightarrow> string \<Rightarrow> bool" where
  "contains [] tok = (tok = [])"
| "contains (c # cs) tok = (prefix tok (c # cs) \<or> contains cs tok)"

section \<open>destroy() and isValid()\<close>

text \<open>
  \<^verbatim>\<open>destroy()\<close>, lines 291-301: release the context if there is one, then reset the
  device and the platform.
\<close>

definition destroy :: "QQuickCLContextPrivate \<Rightarrow> QQuickCLContextPrivate \<times> event list" where
  "destroy d =
     (if context d \<noteq> 0
      then (d\<lparr>context := 0, device := 0, platform := 0\<rparr>,
            [Log (Dbg_Releasing (context d)), Call_clReleaseContext (context d)])
      else (d\<lparr>device := 0, platform := 0\<rparr>, []))"

definition isValid :: "QQuickCLContextPrivate \<Rightarrow> bool" where
  "isValid d = (context d \<noteq> 0)"

section \<open>The native environment\<close>

text \<open>
  \<^verbatim>\<open>create()\<close> is compiled for one of three operating systems (\<^verbatim>\<open>Q_OS_OSX\<close>,
  \<^verbatim>\<open>Q_OS_WIN\<close>, \<^verbatim>\<open>Q_OS_LINUX\<close>).
\<close>

datatype os = OSX | Windows | Linux

text \<open>
  The calls into OpenGL, OpenCL and the windowing system are not code of this
  file; one field per call gives what the call answers.
  \<^item> \<open>currentContext\<close>: \<^verbatim>\<open>QOpenGLContext::currentContext()\<close>, \<open>0\<close> when none is current.
  \<^item> \<open>clGetPlatformIDs_count\<close>: \<^verbatim>\<open>clGetPlatformIDs(0, 0, &n)\<close>, the code returned and \<open>n\<close>.
  \<^item> \<open>clGetPlatformIDs\<close>: \<^verbatim>\<open>clGetPlatformIDs(n, data, 0)\<close>, the code returned and the
    identifiers stored.
  \<^item> \<open>glGetString_VENDOR\<close>: the characters of \<^verbatim>\<open>glGetString(GL_VENDOR)\<close> before the
    terminator, \<open>None\<close> for a null pointer.
  \<^item> \<open>clGetPlatformInfo_NAME\<close>, \<open>clGetDeviceInfo_EXTENSIONS\<close>,
    \<open>clGetProgramBuildInfo_LOG\<close>: the bytes the query stores at the front of the
    buffer (the empty list when it stores nothing).
  \<^item> \<open>heap_bytes\<close>: \<^verbatim>\<open>resize(1024)\<close> does not write the bytes of the new array \<^verbatim>\<open>name\<close> of
    a loop round in \<^verbatim>\<open>create()\<close>: they are what the heap holds. \<open>heap_bytes env i prev j\<close>
    is byte \<open>j\<close> of the array of round \<open>i\<close> right after \<^verbatim>\<open>resize\<close>, where \<open>prev\<close> is the
    array of the round before, destroyed at the end of that round (\<open>[]\<close> in the
    first round). An allocator that hands out the block just freed gives the
    bytes of \<open>prev\<close> again.
  \<^item> \<open>uninitialized\<close>: in the same way, the bytes of the array \<^verbatim>\<open>log\<close> of
    \<^verbatim>\<open>buildProgram()\<close> after \<^verbatim>\<open>resize(8192)\<close>.
  \<^item> \<open>clCreateContextFromType\<close>: the context (or \<open>0\<close>) and the error code, for a
    property list.
  \<^item> \<open>clGetGLContextInfoAPPLE\<close>, \<open>clGetGLContextInfoKHR\<close>, \<open>clGetDeviceIDs\<close>: the
    code returned and the device stored through the pointer, if any;
    \<open>clGetGLContextInfoKHR\<close> is \<open>None\<close> when \<^verbatim>\<open>clGetExtensionFunctionAddress\<close> answers
    null.
\<close>

record env =
  target_os :: os
  currentContext :: cl_handle
  clGetPlatformIDs_count :: "cl_int \<times> nat"
  clGetPlatformIDs :: "nat \<Rightarrow> cl_int \<times> cl_handle list"
  glGetString_VENDOR :: "string option"
  clGetPlatformInfo_NAME :: "cl_handle \<Rightarrow> string"
  heap_bytes :: "nat \<Rightarrow> string \<Rightarrow> nat \<Rightarrow> char"
  uninitialized :: "nat \<Rightarrow> char"
  openGLModuleType_LibGLES :: bool
  CGLGetShareGroup :: nat
  wglGetCurrentContext :: nat
  wglGetCurrentDC :: nat
  nativeResource_egldisplay :: nat
  nativeResource_display :: nat
  nativeResource_eglcontext :: nat
  nativeResource_glxcontext :: nat
  clCreateContextFromType :: "nat list \<Rightarrow> cl_handle \<times> cl_int"
  clGetGLContextInfoAPPLE :: "cl_handle \<Rightarrow> cl_int \<times> cl_handle option"
  clGetGLContextInfoKHR :: "(nat list \<Rightarrow> cl_int \<times> cl_handle option) option"
  clGetDeviceIDs :: "cl_handle \<Rightarrow> cl_int \<times> cl_handle option"
  clGetDeviceInfo_EXTENSIONS :: "cl_handle \<Rightarrow> string"
  clCreateProgramWithSource :: "cl_handle \<Rightarrow> string \<Rightarrow> cl_handle \<times> cl_int"
  clBuildProgram :: "cl_handle \<Rightarrow> cl_handle \<Rightarrow> cl_int"
  clGetProgramBuildInfo_LOG :: "cl_handle \<Rightarrow> cl_handle \<Rightarrow> string"

text \<open>Property names of the OpenCL headers (\<^verbatim>\<open>CL/cl.h\<close>, \<^verbatim>\<open>CL/cl_gl.h\<close>).\<close>

definition CL_CONTEXT_PLATFORM :: nat where
  "CL_CONTEXT_PLATFORM = 0x1084"

definition CL_GL_CONTEXT_KHR :: nat where
  "CL_GL_CONTEXT_KHR = 0x2008"

definition CL_EGL_DISPLAY_KHR :: nat where
  "CL_EGL_DISPLAY_KHR = 0x2009"

definition CL_GLX_DISPLAY_KHR :: nat where
  "CL_GLX_DISPLAY_KHR = 0x200A"

definition CL_WGL_HDC_KHR :: nat where
  "CL_WGL_HDC_KHR = 0x200B"

definition CL_CONTEXT_PROPERTY_USE_CGL_SHAREGROUP_APPLE :: nat where
  "CL_CONTEXT_PROPERTY_USE_CGL_SHAREGROUP_APPLE = 0x10000000"

section \<open>create()\<close>

text \<open>
  Lines 198-200: three independent tests on the vendor string, giving
  \<open>(isNV, isIntel, isAMD)\<close>.
\<close>

definition classify_vendor :: "string option \<Rightarrow> bool \<times> bool \<times> bool" where
  "classify_vendor vendor =
     (case vendor of
        None \<Rightarrow> (False, False, False)
      | Some v \<Rightarrow> (contains v ''NVIDIA'', contains v ''Intel'', contains v ''ATI''))"

text \<open>
  Lines 203-205: the array \<^verbatim>\<open>name\<close> of loop round \<open>i\<close>, a new \<^verbatim>\<open>QByteArray\<close> resized to
  1024 bytes (not filled) and then handed to \<^verbatim>\<open>clGetPlatformInfo\<close> for platform \<open>p\<close>;
  \<open>prev\<close> is the array of the round before.
\<close>

definition platform_name :: "env \<Rightarrow> nat \<Rightarrow> string \<Rightarrow> cl_handle \<Rightarrow> string" where
  "platform_name env i prev p =
     stored 1024 (clGetPlatformInfo_NAME env p) (map (heap_bytes env i prev) [0..<1024])"

text \<open>
  Lines 202-213: the loop over \<^verbatim>\<open>platformIds\<close>, from round \<open>i\<close> on. The last argument
  is \<^verbatim>\<open>d->platform\<close>; the result is \<^verbatim>\<open>d->platform\<close> after the loop and the lines logged.
  \<^verbatim>\<open>contains\<close> searches all 1024 bytes of the array, \<^verbatim>\<open>%s\<close> prints the bytes before the
  first NUL.
\<close>

fun platform_loop ::
  "env \<Rightarrow> bool \<times> bool \<times> bool \<Rightarrow> nat \<Rightarrow> string \<Rightarrow> cl_handle list \<Rightarrow> cl_handle
     \<Rightarrow> cl_handle \<times> event list" where
  "platform_loop env flags i prev [] cur = (cur, [])"
| "platform_loop env (isNV, isIntel, isAMD) i prev (p # ps) cur =
     (let name = platform_name env i prev p;
          (selected, ev) =
             platform_loop env (isNV, isIntel, isAMD) (Suc i) name ps
               (if isNV \<and> contains name ''NVIDIA'' then p
                else if isIntel \<and> contains name ''Intel'' then p
                else if isAMD \<and> contains name ''AMD'' then p
                else cur)
      in (selected, Log (Dbg_Platform p (c_str name)) # ev))"

text \<open>
  Lines 216-253: the property list \<^verbatim>\<open>contextProps\<close> and the warnings of the Linux
  branch.
\<close>

definition contextProps :: "env \<Rightarrow> cl_handle \<Rightarrow> nat list \<times> event list" where
  "contextProps env plat =
     (case target_os env of
        OSX \<Rightarrow>
          ([CL_CONTEXT_PROPERTY_USE_CGL_SHAREGROUP_APPLE, CGLGetShareGroup env, 0], [])
      | Windows \<Rightarrow>
          ([CL_CONTEXT_PLATFORM, plat,
            CL_GL_CONTEXT_KHR, wglGetCurrentContext env,
            CL_WGL_HDC_KHR, wglGetCurrentDC env,
            0], [])
      | Linux \<Rightarrow>
          (if nativeResource_egldisplay env \<noteq> 0
           then ([CL_CONTEXT_PLATFORM, plat,
                  CL_GL_CONTEXT_KHR, nativeResource_eglcontext env,
                  CL_EGL_DISPLAY_KHR, nativeResource_egldisplay env,
                  0],
                 if nativeResource_eglcontext env = 0 then [Log Warn_NoEGLContext] else [])
           else ([CL_CONTEXT_PLATFORM, plat,
                  CL_GL_CONTEXT_KHR, nativeResource_glxcontext env,
                  CL_GLX_DISPLAY_KHR, nativeResource_display env,
                  0],
                 if nativeResource_glxcontext env = 0 then [Log Warn_NoGLXContext] else [])))"

text \<open>
  Lines 160-260 of \<^verbatim>\<open>create()\<close>: everything up to and including the creation of the
  context. The result is whether \<^verbatim>\<open>create()\<close> goes on (\<open>False\<close>: it has returned
  false), the state, the events and \<^verbatim>\<open>contextProps\<close>.
\<close>

definition create_context ::
  "env \<Rightarrow> QQuickCLContextPrivate \<Rightarrow> bool \<times> QQuickCLContextPrivate \<times> event list \<times> nat list" where
  "create_context env d =
     (let (d0, ev0) = destroy d;
          ev1 = ev0 @ [Log Dbg_Creating]
      in if currentContext env = 0
         then (False, d0, ev1 @ [Log Warn_NoCurrentGLContext], [])
         else
           let (err, n) = clGetPlatformIDs_count env in
           if err \<noteq> CL_SUCCESS
           then (False, d0,
                 ev1 @ [Log (Warn_PlatformIDCount err)]
                     @ (if err = - 1001 then [Log Warn_NoImplementation] else []), [])
           else if n = 0
           then (False, d0, ev1 @ [Log Warn_NoPlatform], [])
           else
             let (err2, ids) = clGetPlatformIDs env n;
                 platformIds = stored n ids (replicate n 0)
             in if err2 \<noteq> CL_SUCCESS
                then (False, d0, ev1 @ [Log Warn_PlatformIDs], [])
                else
                  let vendor = glGetString_VENDOR env;
                      (selected, evp) =
                         platform_loop env (classify_vendor vendor) 0 [] platformIds
                           (platformIds ! 0);
                      d1 = d0\<lparr>platform := selected\<rparr>;
                      ev2 = ev1 @ [Log (Dbg_GLVendor vendor), Log (Dbg_FoundPlatforms n)]
                                @ evp @ [Log (Dbg_UsingPlatform (platform d1))]
                  in if target_os env = Windows \<and> openGLModuleType_LibGLES env
                     then (False, d1, ev2 @ [Log Warn_ANGLE], [])
                     else
                       let (props, ev3) = contextProps env (platform d1);
                           (ctx, errc) = clCreateContextFromType env props;
                           d2 = d1\<lparr>context := ctx\<rparr>
                       in if ctx = 0
                          then (False, d2, ev2 @ ev3 @ [Log (Warn_CreateContext errc)], props)
                          else (True, d2, ev2 @ ev3 @ [Log (Dbg_UsingContext ctx)], props))"

text \<open>A native call that is given \<^verbatim>\<open>&d->device\<close> and may store a device there.\<close>

definition store_device ::
  "cl_handle option \<Rightarrow> QQuickCLContextPrivate \<Rightarrow> QQuickCLContextPrivate" where
  "store_device w d = (case w of None \<Rightarrow> d | Some v \<Rightarrow> d\<lparr>device := v\<rparr>)"

text \<open>
  Lines 262-282: the device bound to the current OpenGL context. On OS X one
  query; elsewhere the extension function, and \<^verbatim>\<open>clGetDeviceIDs\<close> when the function is
  missing or fails. The result is whether a device was found, the state and the
  warning.
\<close>

definition resolve_device ::
  "env \<Rightarrow> QQuickCLContextPrivate \<Rightarrow> nat list \<Rightarrow> bool \<times> QQuickCLContextPrivate \<times> event list" where
  "resolve_device env d props =
     (if target_os env = OSX
      then
        (let (err, w) = clGetGLContextInfoAPPLE env (context d);
             d1 = store_device w d
         in if err \<noteq> CL_SUCCESS
            then (False, d1, [Log (Warn_DeviceForScreen err)])
            else (True, d1, []))
      else
        (let (found, d1) =
               (case clGetGLContextInfoKHR env of
                  None \<Rightarrow> (False, d)
                | Some getGLContextInfo \<Rightarrow>
                    (let (e, w) = getGLContextInfo props
                     in (e = CL_SUCCESS, store_device w d)))
         in if \<not> found
            then
              (let (err, w) = clGetDeviceIDs env (platform d1);
                   d2 = store_device w d1
               in if err \<noteq> CL_SUCCESS
                  then (False, d2, [Log (Warn_GetDevice err)])
                  else (True, d2, []))
            else (True, d1, [])))"

text \<open>
  \<^verbatim>\<open>create()\<close>, lines 158-286: the result is the value returned, the state and the
  events.
\<close>

definition create ::
  "env \<Rightarrow> QQuickCLContextPrivate \<Rightarrow> bool \<times> QQuickCLContextPrivate \<times> event list" where
  "create env d =
     (let (ok, d1, ev1, props) = create_context env d
      in if \<not> ok then (False, d1, ev1)
         else
           let (found, d2, ev2) = resolve_device env d1 props
           in if \<not> found
              then (let (d3, ev3) = destroy d2 in (False, d3, ev1 @ ev2 @ ev3))
              else (True, d2, ev1 @ ev2 @ [Log (Dbg_UsingDevice (device d2))]))"

text \<open>
  The vector \<^verbatim>\<open>platformIds\<close> of lines 189-191, as \<open>create_context\<close> computes it: \<open>n\<close>
  null entries after \<^verbatim>\<open>resize(n)\<close>, then the identifiers the second
  \<^verbatim>\<open>clGetPlatformIDs\<close> stores.
\<close>

definition platformIds :: "env \<Rightarrow> cl_handle list" where
  "platformIds env =
     (let (err, n) = clGetPlatformIDs_count env;
          (err2, ids) = clGetPlatformIDs env n
      in stored n ids (replicate n 0))"

text \<open>
  The rounds of the loop: each platform with the array \<^verbatim>\<open>name\<close> of its round.
\<close>

fun platform_rounds :: "env \<Rightarrow> nat \<Rightarrow> string \<Rightarrow> cl_handle list \<Rightarrow> (cl_handle \<times> string) list" where
  "platform_rounds env i prev [] = []"
| "platform_rounds env i prev (p # ps) =
     (p, platform_name env i prev p)
       # platform_rounds env (Suc i) (platform_name env i prev p) ps"

text \<open>
  The test of a loop round on its array: a bucket is flagged and the array
  contains the token the loop looks for in that bucket.
\<close>

definition name_matches :: "bool \<times> bool \<times> bool \<Rightarrow> string \<Rightarrow> bool" where
  "name_matches flags name =
     (case flags of (isNV, isIntel, isAMD) \<Rightarrow>
        isNV \<and> contains name ''NVIDIA''
      \<or> isIntel \<and> contains name ''Intel''
      \<or> isAMD \<and> contains name ''AMD'')"

text \<open>The number of bucket flags that are set.\<close>

definition flags_set :: "bool \<times> bool \<times> bool \<Rightarrow> nat" where
  "flags_set flags =
     (case flags of (isNV, isIntel, isAMD) \<Rightarrow> length (filter id [isNV, isIntel, isAMD]))"

section \<open>platformName() and deviceExtensions()\<close>








section \<open>buildProgram()\<close>


section \<open>toCLImageFormat()\<close>

text \<open>
  \<^verbatim>\<open>QImage::Format\<close> is an enumeration of Qt (\<^verbatim>\<open>qimage.h\<close>), so a format is an
  integer; the enumerators the function names have these values.
\<close>

type_synonym QImage_Format = int

definition Format_Indexed8 :: QImage_Format where
  "Format_Indexed8 = 3"

definition Format_RGB32 :: QImage_Format where
  "Format_RGB32 = 4"

definition Format_ARGB32 :: QImage_Format where
  "Format_ARGB32 = 5"

definition Format_ARGB32_Premultiplied :: QImage_Format where
  "Format_ARGB32_Premultiplied = 6"

definition Format_RGB16 :: QImage_Format where
  "Format_RGB16 = 7"

definition Format_RGB555 :: QImage_Format where
  "Format_RGB555 = 11"

definition Format_RGB888 :: QImage_Format where
  "Format_RGB888 = 13"

definition Format_RGBX8888 :: QImage_Format where
  "Format_RGBX8888 = 16"

definition Format_RGBA8888 :: QImage_Format where
  "Format_RGBA8888 = 17"

definition Format_RGBA8888_Premultiplied :: QImage_Format where
  "Format_RGBA8888_Premultiplied = 18"

text \<open>Channel orders and channel data types of \<^verbatim>\<open>CL/cl.h\<close> (\<^verbatim>\<open>cl_uint\<close>).\<close>

definition CL_A :: nat where
  "CL_A = 0x10B1"

definition CL_RGB :: nat where
  "CL_RGB = 0x10B4"

definition CL_RGBA :: nat where
  "CL_RGBA = 0x10B5"

definition CL_BGRA :: nat where
  "CL_BGRA = 0x10B6"

definition CL_ARGB :: nat where
  "CL_ARGB = 0x10B7"

definition CL_RGBx :: nat where
  "CL_RGBx = 0x10BC"

definition CL_UNORM_INT8 :: nat where
  "CL_UNORM_INT8 = 0x10D2"

definition CL_UNORM_SHORT_565 :: nat where
  "CL_UNORM_SHORT_565 = 0x10D4"

definition CL_UNORM_SHORT_555 :: nat where
  "CL_UNORM_SHORT_555 = 0x10D5"

record cl_image_format =
  image_channel_order :: nat
  image_channel_data_type :: nat

text \<open>\<^verbatim>\<open>QSysInfo::ByteOrder\<close>, a constant of the build.\<close>

datatype Endian = BigEndian | LittleEndian

text \<open>
  Lines 403-459: the \<^verbatim>\<open>switch\<close>, one test per group of \<^verbatim>\<open>case\<close> labels in the order of
  the source, the \<^verbatim>\<open>default\<close> branch last.
\<close>

definition toCLImageFormat :: "Endian \<Rightarrow> QImage_Format \<Rightarrow> cl_image_format \<times> event list" where
  "toCLImageFormat ByteOrder format =
     (if format = Format_Indexed8
      then (\<lparr>image_channel_order = CL_A, image_channel_data_type = CL_UNORM_INT8\<rparr>, [])
      else if format = Format_RGB32 \<or> format = Format_ARGB32
              \<or> format = Format_ARGB32_Premultiplied
      then (if ByteOrder = LittleEndian
            then (\<lparr>image_channel_order = CL_BGRA, image_channel_data_type = CL_UNORM_INT8\<rparr>, [])
            else (\<lparr>image_channel_order = CL_ARGB, image_channel_data_type = CL_UNORM_INT8\<rparr>, []))
      else if format = Format_RGB16
      then (\<lparr>image_channel_order = CL_RGB, image_channel_data_type = CL_UNORM_SHORT_565\<rparr>, [])
      else if format = Format_RGB555
      then (\<lparr>image_channel_order = CL_RGB, image_channel_data_type = CL_UNORM_SHORT_555\<rparr>, [])
      else if format = Format_RGB888
      then (\<lparr>image_channel_order = CL_RGB, image_channel_data_type = CL_UNORM_INT8\<rparr>, [])
      else if format = Format_RGBX8888
      then (\<lparr>image_channel_order = CL_RGBx, image_channel_data_type = CL_UNORM_INT8\<rparr>, [])
      else if format = Format_RGBA8888 \<or> format = Format_RGBA8888_Premultiplied
      then (\<lparr>image_channel_order = CL_RGBA, image_channel_data_type = CL_UNORM_INT8\<rparr>, [])
      else (\<lparr>image_channel_order = 0, image_channel_data_type = 0\<rparr>,
            [Log (Warn_UnrecognizedFormat format)]))"

section \<open>Example environments\<close>

text \<open>
  A Linux machine with GLX, an NVIDIA OpenGL driver and two OpenCL platforms, the
  second one NVIDIA's; every native call succeeds. The heap holds NUL bytes at
  first, and the allocator hands the block of the array of one loop round to the
  next round.
\<close>

definition env_linux :: env where
  "env_linux =
     \<lparr>target_os = Linux,
      currentContext = 1,
      clGetPlatformIDs_count = (0, 2),
      clGetPlatformIDs = (\<lambda>n. (0, [10, 20])),
      glGetString_VENDOR = Some ''NVIDIA Corporation'',
      clGetPlatformInfo_NAME =
        (\<lambda>p. if p = 10 then ''Intel(R) OpenCL'' @ [NUL]
             else if p = 20 then ''NVIDIA CUDA'' @ [NUL] else []),
      heap_bytes = (\<lambda>i prev j. if j < length prev then prev ! j else NUL),
      uninitialized = (\<lambda>i. NUL),
      openGLModuleType_LibGLES = False,
      CGLGetShareGroup = 0,
      wglGetCurrentContext = 0,
      wglGetCurrentDC = 0,
      nativeResource_egldisplay = 0,
      nativeResource_display = 2,
      nativeResource_eglcontext = 0,
      nativeResource_glxcontext = 3,
      clCreateContextFromType = (\<lambda>props. (30, 0)),
      clGetGLContextInfoAPPLE = (\<lambda>c. (- 30, None)),
      clGetGLContextInfoKHR = Some (\<lambda>props. (0, Some 40)),
      clGetDeviceIDs = (\<lambda>p. (0, Some 40)),
      clGetDeviceInfo_EXTENSIONS =
        (\<lambda>dev. if dev = 40 then ''cl_khr_gl_sharing'' @ [NUL] else []),
      clCreateProgramWithSource = (\<lambda>c s. if c = 30 then (50, 0) else (0, - 34)),
      clBuildProgram = (\<lambda>prog dev. 0),
      clGetProgramBuildInfo_LOG = (\<lambda>prog dev. ''error: syntax'' @ [NUL])\<rparr>"

text \<open>
  The same machine when \<^verbatim>\<open>clCreateContextFromType\<close> finds no GPU device
  (\<^verbatim>\<open>CL_DEVICE_NOT_FOUND\<close>, \<open>-1\<close>).
\<close>

definition env_no_gpu :: env where
  "env_no_gpu = env_linux\<lparr>clCreateContextFromType := (\<lambda>props. (0, - 1))\<rparr>"

text \<open>
  The same machine when the context is created, the extension function
  \<^verbatim>\<open>clGetGLContextInfoKHR\<close> is missing and \<^verbatim>\<open>clGetDeviceIDs\<close> fails.
\<close>

definition env_no_device :: env where
  "env_no_device =
     env_linux\<lparr>clGetGLContextInfoKHR := None, clGetDeviceIDs := (\<lambda>p. (- 1, None))\<rparr>"

text \<open>
  The same machine with two other platforms: the name of the first one contains
  \<^verbatim>\<open>NVIDIA\<close>, the name of the second one is shorter and does not.
\<close>

definition env_stale :: env where
  "env_stale =
     env_linux\<lparr>clGetPlatformInfo_NAME :=
                 (\<lambda>p. if p = 10 then ''OpenCL NVIDIA CUDA'' @ [NUL]
                      else if p = 20 then ''Clover'' @ [NUL] else [])\<rparr>"

text \<open>
  The same machine with an ATI OpenGL driver and two platforms: the name of the
  first one contains \<^verbatim>\<open>AMD\<close>, the second one is the old \<^verbatim>\<open>ATI Stream\<close> runtime.
\<close>

definition env_stale_ati :: env where
  "env_stale_ati =
     env_linux\<lparr>glGetString_VENDOR := Some ''ATI Technologies Inc.'',
               clGetPlatformInfo_NAME :=
                 (\<lambda>p. if p = 10 then ''OpenCL from AMD'' @ [NUL]
                      else if p = 20 then ''ATI Stream'' @ [NUL] else [])\<rparr>"



section \<open>Properties\<close>

lemma contains_sublist: "contains s tok = sublist tok s"
  by (induction s) (auto simp: sublist_Cons_right)

lemma destroy_state: "fst (destroy d) = QQuickCLContextPrivate_init"
  by (simp add: destroy_def QQuickCLContextPrivate_init_def)

subsection \<open>Arrays and substrings\<close>


lemma sublist_zero_padded:
  assumes "tok \<noteq> []" "z \<notin> set tok"
  shows "sublist tok (w @ replicate k z) = sublist tok w"
proof
  assume "sublist tok (w @ replicate k z)"
  then consider "sublist tok w" | "sublist tok (replicate k z)"
    | xs1 xs2 where "tok = xs1 @ xs2" "suffix xs1 w" "prefix xs2 (replicate k z)"
    unfolding sublist_append by blast
  then show "sublist tok w"
  proof cases
    case 1
    then show ?thesis .
  next
    case 2
    then have "set tok \<subseteq> set (replicate k z)" by (rule set_mono_sublist)
    with assms show ?thesis by (cases tok) auto
  next
    case 3
    from 3(3) have "set xs2 \<subseteq> set (replicate k z)" by (rule set_mono_prefix)
    with assms(2) 3(1) have "xs2 = []" by (cases xs2) auto
    with 3 show ?thesis by simp
  qed
next
  assume "sublist tok w"
  then show "sublist tok (w @ replicate k z)" by (simp add: sublist_append)
qed

lemma contains_replicate:
  "tok \<noteq> [] \<Longrightarrow> z \<notin> set tok \<Longrightarrow> contains (replicate k z) tok = False"
  using sublist_zero_padded [of tok z "[]" k] by (simp add: contains_sublist)










subsection \<open>The arrays of the platform loop\<close>

text \<open>With an allocator that zeroes, every array is the stored name and NUL bytes.\<close>

lemma platform_name_zeroed:
  assumes "heap_bytes env = (\<lambda>i prev j. NUL)"
  shows "platform_name env i prev p
     = stored 1024 (clGetPlatformInfo_NAME env p) (replicate 1024 NUL)"
  using assms by (simp add: platform_name_def map_replicate_const)

text \<open>
  With an allocator that hands out the block just freed, the array of a round
  starts as the array of the round before.
\<close>

lemma platform_name_first:
  assumes "heap_bytes env = (\<lambda>i prev j. if j < length prev then prev ! j else NUL)"
  shows "platform_name env i [] p
     = stored 1024 (clGetPlatformInfo_NAME env p) (replicate 1024 NUL)"
  using assms by (simp add: platform_name_def map_replicate_const)

lemma platform_name_reused:
  assumes "heap_bytes env = (\<lambda>i prev j. if j < length prev then prev ! j else NUL)"
    and "length prev = 1024"
  shows "platform_name env i prev p = stored 1024 (clGetPlatformInfo_NAME env p) prev"
proof -
  have "map (\<lambda>j. if j < length prev then prev ! j else NUL) [0..<1024]
      = map ((!) prev) [0..<length prev]"
    using assms(2) by (intro map_cong) auto
  then show ?thesis
    using assms(1) by (simp add: platform_name_def map_nth)
qed

lemma name_matches_zero_filled:
  assumes "length w \<le> n"
  shows "name_matches flags (stored n w (replicate n NUL)) = name_matches flags w"
proof -
  have "contains (stored n w (replicate n NUL)) tok = contains w tok"
    if "tok \<noteq> []" "NUL \<notin> set tok" for tok
    using assms that by (simp add: stored_def contains_sublist sublist_zero_padded)
  then show ?thesis
    by (cases flags) (simp add: name_matches_def NUL_def)
qed

subsection \<open>The platform loop\<close>

lemma platform_loop_Cons:
  "platform_loop env flags i prev (p # ps) cur =
     (let name = platform_name env i prev p;
          r = platform_loop env flags (Suc i) name ps (if name_matches flags name then p else cur)
      in (fst r, Log (Dbg_Platform p (c_str name)) # snd r))"
  by (cases flags) (auto simp: name_matches_def Let_def split: prod.splits)

text \<open>
  The loop ends with the platform of the last round whose array passes the test,
  and with the platform it started with when no array does.
\<close>

lemma platform_loop_selected:
  "fst (platform_loop env flags i prev ids cur) =
     (if filter (\<lambda>r. name_matches flags (snd r)) (platform_rounds env i prev ids) = [] then cur
      else fst (last (filter (\<lambda>r. name_matches flags (snd r)) (platform_rounds env i prev ids))))"
proof (induction ids arbitrary: i prev cur)
  case Nil
  then show ?case by simp
next
  case (Cons p ps)
  show ?case
    by (simp only: platform_loop_Cons Let_def fst_conv Cons.IH platform_rounds.simps) simp
qed

lemma platform_loop_events:
  "snd (platform_loop env flags i prev ids cur) =
     map (\<lambda>r. Log (Dbg_Platform (fst r) (c_str (snd r)))) (platform_rounds env i prev ids)"
proof (induction ids arbitrary: i prev cur)
  case Nil
  then show ?case by simp
next
  case (Cons p ps)
  show ?case
    by (simp only: platform_loop_Cons Let_def snd_conv Cons.IH platform_rounds.simps) simp
qed

lemma platform_rounds_zeroed:
  assumes "heap_bytes env = (\<lambda>i prev j. NUL)"
  shows "platform_rounds env i prev ids
     = map (\<lambda>p. (p, stored 1024 (clGetPlatformInfo_NAME env p) (replicate 1024 NUL))) ids"
  by (induction ids arbitrary: i prev) (simp_all add: platform_name_zeroed [OF assms])

text \<open>
  So where every array starts as NUL bytes and no stored name is longer than the
  array, the loop ends with the last platform whose stored name passes the test,
  and with the platform it started with when there is none.
\<close>

lemma platform_loop_zeroed:
  assumes "heap_bytes env = (\<lambda>i prev j. NUL)"
    and "\<And>p. length (clGetPlatformInfo_NAME env p) \<le> 1024"
  shows "fst (platform_loop env flags i prev ids cur) =
     (if filter (\<lambda>p. name_matches flags (clGetPlatformInfo_NAME env p)) ids = [] then cur
      else last (filter (\<lambda>p. name_matches flags (clGetPlatformInfo_NAME env p)) ids))"
proof -
  let ?m = "\<lambda>p. name_matches flags (clGetPlatformInfo_NAME env p)"
  let ?r = "\<lambda>p. (p, stored 1024 (clGetPlatformInfo_NAME env p) (replicate 1024 NUL))"
  have f: "filter (\<lambda>r. name_matches flags (snd r)) (map ?r ids) = map ?r (filter ?m ids)"
    by (simp add: filter_map comp_def name_matches_zero_filled [OF assms(2)])
  show ?thesis
    by (simp add: platform_loop_selected platform_rounds_zeroed [OF assms(1)] f last_map)
qed

subsection \<open>What the stages of create() leave\<close>

lemma create_context_no_gl:
  "currentContext env = 0 \<Longrightarrow>
   create_context env d =
     (False, \<lparr>platform = 0, device = 0, context = 0\<rparr>,
      snd (destroy d) @ [Log Dbg_Creating, Log Warn_NoCurrentGLContext], [])"
  by (simp add: create_context_def destroy_def Let_def split: prod.splits)

lemma create_context_True:
  "create_context env d = (True, d1, ev1, props) \<Longrightarrow> context d1 \<noteq> 0"
  by (auto simp: create_context_def Let_def split: if_splits prod.splits)

lemma create_context_False:
  "create_context env d = (False, d1, ev1, props) \<Longrightarrow> context d1 = 0 \<and> device d1 = 0"
  by (auto simp: create_context_def destroy_def Let_def split: if_splits prod.splits)

lemma store_device_other:
  "context (store_device w d) = context d" "platform (store_device w d) = platform d"
  by (simp_all add: store_device_def split: option.splits)

lemma resolve_device_keeps:
  "resolve_device env d props = (found, d', ev) \<Longrightarrow>
     context d' = context d \<and> platform d' = platform d"
  by (auto simp: resolve_device_def Let_def store_device_other
      split: if_splits prod.splits option.splits)

lemma create_False:
  "fst (create env d) = False \<Longrightarrow>
     context (fst (snd (create env d))) = 0 \<and> device (fst (snd (create env d))) = 0"
proof -
  assume f: "fst (create env d) = False"
  obtain ok d1 ev1 props where cc: "create_context env d = (ok, d1, ev1, props)"
    by (metis prod_cases4)
  obtain found d2 ev2 where rd: "resolve_device env d1 props = (found, d2, ev2)"
    by (metis prod_cases3)
  show ?thesis
  proof (cases ok)
    case False
    with cc create_context_False show ?thesis by (simp add: create_def)
  next
    case True
    with f cc rd have "\<not> found" by (auto simp: create_def split: if_splits)
    with True cc rd show ?thesis
      by (simp add: create_def destroy_def split: prod.splits)
  qed
qed

subsection \<open>The example environments, evaluated\<close>

lemma platform_loop_env_linux:
  assumes "heap_bytes env = heap_bytes env_linux"
    and "clGetPlatformInfo_NAME env = clGetPlatformInfo_NAME env_linux"
  shows "platform_loop env (True, False, False) 0 [] [10, 20] 10 =
     (20, [Log (Dbg_Platform 10 ''Intel(R) OpenCL''), Log (Dbg_Platform 20 ''NVIDIA CUDA'')])"
proof -
  define A where "A = ''Intel(R) OpenCL'' @ NUL # replicate 1008 NUL"
  define B where "B = ''NVIDIA CUDA'' @ NUL # ''nCL'' @ NUL # replicate 1008 NUL"
  have h: "heap_bytes env = (\<lambda>i prev j. if j < length prev then prev ! j else NUL)"
    using assms(1) by (simp add: env_linux_def)
  have n: "clGetPlatformInfo_NAME env 10 = ''Intel(R) OpenCL'' @ [NUL]"
    "clGetPlatformInfo_NAME env 20 = ''NVIDIA CUDA'' @ [NUL]"
    using assms(2) by (simp_all add: env_linux_def)
  have a: "platform_name env 0 [] 10 = A"
    by (simp add: platform_name_first [OF h] n stored_def A_def)
  have b: "platform_name env (Suc 0) A 20 = B"
    by (simp add: platform_name_reused [OF h] n stored_def A_def B_def)
  have c: "\<not> contains A ''NVIDIA''" "contains B ''NVIDIA''"
    "c_str A = ''Intel(R) OpenCL''" "c_str B = ''NVIDIA CUDA''"
    by (simp_all add: A_def B_def contains_replicate c_str_def NUL_def)
  show ?thesis
    by (simp add: a b c)
qed

lemma create_context_two_platforms:
  assumes "currentContext env = 1" "clGetPlatformIDs_count env = (0, 2)"
    "clGetPlatformIDs env 2 = (0, [10, 20])"
    "glGetString_VENDOR env = Some ''NVIDIA Corporation''"
    "target_os env = Linux" "nativeResource_egldisplay env = 0"
    "nativeResource_glxcontext env = 3" "nativeResource_display env = 2"
    "clCreateContextFromType env = (\<lambda>props. (ctx, err))"
    "heap_bytes env = heap_bytes env_linux"
    "clGetPlatformInfo_NAME env = clGetPlatformInfo_NAME env_linux"
  shows "create_context env QQuickCLContextPrivate_init =
     (ctx \<noteq> 0, \<lparr>platform = 20, device = 0, context = ctx\<rparr>,
      [Log Dbg_Creating, Log (Dbg_GLVendor (Some ''NVIDIA Corporation'')),
       Log (Dbg_FoundPlatforms 2),
       Log (Dbg_Platform 10 ''Intel(R) OpenCL''), Log (Dbg_Platform 20 ''NVIDIA CUDA''),
       Log (Dbg_UsingPlatform 20),
       Log (if ctx = 0 then Warn_CreateContext err else Dbg_UsingContext ctx)],
      [CL_CONTEXT_PLATFORM, 20, CL_GL_CONTEXT_KHR, 3, CL_GLX_DISPLAY_KHR, 2, 0])"
proof -
  note s = platform_loop_env_linux [OF assms(10,11)]
  show ?thesis
    by (simp add: create_context_def destroy_def QQuickCLContextPrivate_init_def assms(1-9)
        CL_SUCCESS_def stored_def classify_vendor_def s contextProps_def
        del: platform_loop.simps)
qed

lemma create_context_env_no_device:
  "create_context env_no_device QQuickCLContextPrivate_init =
     (True, \<lparr>platform = 20, device = 0, context = 30\<rparr>,
      [Log Dbg_Creating, Log (Dbg_GLVendor (Some ''NVIDIA Corporation'')),
       Log (Dbg_FoundPlatforms 2),
       Log (Dbg_Platform 10 ''Intel(R) OpenCL''), Log (Dbg_Platform 20 ''NVIDIA CUDA''),
       Log (Dbg_UsingPlatform 20), Log (Dbg_UsingContext 30)],
      [CL_CONTEXT_PLATFORM, 20, CL_GL_CONTEXT_KHR, 3, CL_GLX_DISPLAY_KHR, 2, 0])"
  using create_context_two_platforms [of env_no_device 30 0]
  by (simp add: env_no_device_def env_linux_def)

text \<open>
  Round 2 of the loop on \<open>env_stale\<close> and on \<open>env_stale_ati\<close>: the array starts as the
  array of round 1, and the stored name ends before the token of round 1.
\<close>

lemma platform_loop_env_stale:
  "platform_loop env_stale (True, False, False) 0 [] [10, 20] 10 =
     (20, [Log (Dbg_Platform 10 ''OpenCL NVIDIA CUDA''), Log (Dbg_Platform 20 ''Clover'')])"
proof -
  define A where "A = ''OpenCL NVIDIA CUDA'' @ NUL # replicate 1005 NUL"
  define B where "B = ''Clover'' @ NUL # ''NVIDIA CUDA'' @ NUL # replicate 1005 NUL"
  have h: "heap_bytes env_stale = (\<lambda>i prev j. if j < length prev then prev ! j else NUL)"
    by (simp add: env_stale_def env_linux_def)
  have n: "clGetPlatformInfo_NAME env_stale 10 = ''OpenCL NVIDIA CUDA'' @ [NUL]"
    "clGetPlatformInfo_NAME env_stale 20 = ''Clover'' @ [NUL]"
    by (simp_all add: env_stale_def)
  have a: "platform_name env_stale 0 [] 10 = A"
    by (simp add: platform_name_first [OF h] n stored_def A_def)
  have b: "platform_name env_stale (Suc 0) A 20 = B"
    by (simp add: platform_name_reused [OF h] n stored_def A_def B_def)
  have c: "contains A ''NVIDIA''" "contains B ''NVIDIA''"
    "c_str A = ''OpenCL NVIDIA CUDA''" "c_str B = ''Clover''"
    by (simp_all add: A_def B_def contains_replicate c_str_def NUL_def)
  show ?thesis
    by (simp add: a b c)
qed

lemma platform_loop_env_stale_ati:
  "platform_loop env_stale_ati (False, False, True) 0 [] [10, 20] 10 =
     (20, [Log (Dbg_Platform 10 ''OpenCL from AMD''), Log (Dbg_Platform 20 ''ATI Stream'')])"
proof -
  define A where "A = ''OpenCL from AMD'' @ NUL # replicate 1008 NUL"
  define B where "B = ''ATI Stream'' @ NUL # '' AMD'' @ NUL # replicate 1008 NUL"
  have h: "heap_bytes env_stale_ati = (\<lambda>i prev j. if j < length prev then prev ! j else NUL)"
    by (simp add: env_stale_ati_def env_linux_def)
  have n: "clGetPlatformInfo_NAME env_stale_ati 10 = ''OpenCL from AMD'' @ [NUL]"
    "clGetPlatformInfo_NAME env_stale_ati 20 = ''ATI Stream'' @ [NUL]"
    by (simp_all add: env_stale_ati_def)
  have a: "platform_name env_stale_ati 0 [] 10 = A"
    by (simp add: platform_name_first [OF h] n stored_def A_def)
  have b: "platform_name env_stale_ati (Suc 0) A 20 = B"
    by (simp add: platform_name_reused [OF h] n stored_def A_def B_def)
  have c: "contains A ''AMD''" "contains B ''AMD''"
    "c_str A = ''OpenCL from AMD''" "c_str B = ''ATI Stream''"
    by (simp_all add: A_def B_def contains_replicate c_str_def NUL_def)
  show ?thesis
    by (simp add: a b c)
qed

lemma create_two_platforms:
  assumes "currentContext env = 1" "clGetPlatformIDs_count env = (0, 2)"
    "clGetPlatformIDs env 2 = (0, [10, 20])"
    "glGetString_VENDOR env = Some v" "classify_vendor (Some v) = flags"
    "platform_loop env flags 0 [] [10, 20] 10 = (sel, evp)"
    "target_os env = Linux" "nativeResource_egldisplay env = 0"
    "nativeResource_glxcontext env = 3" "nativeResource_display env = 2"
    "clCreateContextFromType env = (\<lambda>props. (30, 0))"
    "clGetGLContextInfoKHR env = Some (\<lambda>props. (0, Some 40))"
  shows "create env QQuickCLContextPrivate_init =
     (True, \<lparr>platform = sel, device = 40, context = 30\<rparr>,
      [Log Dbg_Creating, Log (Dbg_GLVendor (Some v)), Log (Dbg_FoundPlatforms 2)]
      @ evp @ [Log (Dbg_UsingPlatform sel), Log (Dbg_UsingContext 30), Log (Dbg_UsingDevice 40)])"
proof -
  have c: "create_context env QQuickCLContextPrivate_init =
     (True, \<lparr>platform = sel, device = 0, context = 30\<rparr>,
      [Log Dbg_Creating, Log (Dbg_GLVendor (Some v)), Log (Dbg_FoundPlatforms 2)]
      @ evp @ [Log (Dbg_UsingPlatform sel), Log (Dbg_UsingContext 30)],
      [CL_CONTEXT_PLATFORM, sel, CL_GL_CONTEXT_KHR, 3, CL_GLX_DISPLAY_KHR, 2, 0])"
    by (simp add: create_context_def destroy_def QQuickCLContextPrivate_init_def assms
        CL_SUCCESS_def stored_def contextProps_def del: platform_loop.simps)
  show ?thesis
    by (simp add: create_def c resolve_device_def assms store_device_def CL_SUCCESS_def)
qed


lemmas Format_defs =
  Format_Indexed8_def Format_RGB32_def Format_ARGB32_def Format_ARGB32_Premultiplied_def
  Format_RGB16_def Format_RGB555_def Format_RGB888_def Format_RGBX8888_def
  Format_RGBA8888_def Format_RGBA8888_Premultiplied_def

lemmas CL_format_defs =
  CL_A_def CL_RGB_def CL_RGBA_def CL_BGRA_def CL_ARGB_def CL_RGBx_def
  CL_UNORM_INT8_def CL_UNORM_SHORT_565_def CL_UNORM_SHORT_555_def

section \<open>The claims\<close>

text \<open>
  C1. The claim: after any sequence of \<^verbatim>\<open>create()\<close> and \<^verbatim>\<open>destroy()\<close> calls, a null
  context handle comes with null platform and device handles. The code at one
  input: on a freshly constructed instance, with an OpenGL context current and two
  platforms enumerated, \<^verbatim>\<open>clCreateContextFromType\<close> fails; \<^verbatim>\<open>create()\<close> returns false at
  line 258 and the platform chosen at lines 195-213 stays in \<^verbatim>\<open>d->platform\<close>, next
  to a null context. (The failure of the device query, lines 268 and 278, calls
  \<^verbatim>\<open>destroy()\<close> before it returns.)
\<close>

theorem create_context_failure_keeps_platform:
  "fst (create env_no_gpu QQuickCLContextPrivate_init) = False
   \<and> fst (snd (create env_no_gpu QQuickCLContextPrivate_init))
       = \<lparr>platform = 20, device = 0, context = 0\<rparr>"
  using create_context_two_platforms [of env_no_gpu 0 "- 1"]
  by (simp add: create_def env_no_gpu_def env_linux_def)

text \<open>
  C2. When no OpenGL context is current, \<^verbatim>\<open>create()\<close> returns false and leaves
  platform, device and context null, from every starting state. Nothing else
  happens but the \<^verbatim>\<open>destroy()\<close> of line 162 (which releases the context the instance
  held, if any) and two log lines; started in the all-null state, the state is as
  it was.
\<close>

theorem create_without_gl_context:
  assumes "currentContext env = 0"
  shows "create env d =
     (False, \<lparr>platform = 0, device = 0, context = 0\<rparr>,
      (if context d = 0 then []
       else [Log (Dbg_Releasing (context d)), Call_clReleaseContext (context d)])
      @ [Log Dbg_Creating, Log Warn_NoCurrentGLContext])"
  using assms by (simp add: create_def create_context_no_gl destroy_def)

theorem create_without_gl_context_witness:
  "currentContext (env_linux\<lparr>currentContext := 0\<rparr>) = 0
   \<and> create (env_linux\<lparr>currentContext := 0\<rparr>) \<lparr>platform = 20, device = 40, context = 30\<rparr>
     = (False, \<lparr>platform = 0, device = 0, context = 0\<rparr>,
        [Log (Dbg_Releasing 30), Call_clReleaseContext 30,
         Log Dbg_Creating, Log Warn_NoCurrentGLContext])"
  using create_without_gl_context
    [of "env_linux\<lparr>currentContext := 0\<rparr>" "\<lparr>platform = 20, device = 40, context = 30\<rparr>"]
  by simp

text \<open>
  C3. When \<^verbatim>\<open>create()\<close> has created the native context (lines 160-260 go through,
  leaving the state \<open>d1\<close>) and the device query of lines 262-282 fails, \<^verbatim>\<open>create()\<close>
  returns false, platform, device and context are null afterwards, and the last
  thing it does is \<^verbatim>\<open>clReleaseContext\<close> on the context it had just created, which is
  not null.
\<close>

theorem create_device_failure:
  assumes "create_context env d = (True, d1, ev1, props)"
    and "resolve_device env d1 props = (False, d2, ev2)"
  shows "context d1 \<noteq> 0
    \<and> create env d =
        (False, \<lparr>platform = 0, device = 0, context = 0\<rparr>,
         ev1 @ ev2 @ [Log (Dbg_Releasing (context d1)), Call_clReleaseContext (context d1)])"
proof -
  have c: "context d1 \<noteq> 0" using assms(1) by (rule create_context_True)
  have "context d2 = context d1" using assms(2) resolve_device_keeps by blast
  with c have "destroy d2 = (\<lparr>platform = 0, device = 0, context = 0\<rparr>,
      [Log (Dbg_Releasing (context d1)), Call_clReleaseContext (context d1)])"
    by (simp add: destroy_def)
  with c assms show ?thesis by (simp add: create_def)
qed

theorem create_device_failure_witness:
  "create_context env_no_device QQuickCLContextPrivate_init =
     (True, \<lparr>platform = 20, device = 0, context = 30\<rparr>,
      [Log Dbg_Creating, Log (Dbg_GLVendor (Some ''NVIDIA Corporation'')),
       Log (Dbg_FoundPlatforms 2),
       Log (Dbg_Platform 10 ''Intel(R) OpenCL''), Log (Dbg_Platform 20 ''NVIDIA CUDA''),
       Log (Dbg_UsingPlatform 20), Log (Dbg_UsingContext 30)],
      [CL_CONTEXT_PLATFORM, 20, CL_GL_CONTEXT_KHR, 3, CL_GLX_DISPLAY_KHR, 2, 0])
   \<and> resolve_device env_no_device \<lparr>platform = 20, device = 0, context = 30\<rparr>
        [CL_CONTEXT_PLATFORM, 20, CL_GL_CONTEXT_KHR, 3, CL_GLX_DISPLAY_KHR, 2, 0]
     = (False, \<lparr>platform = 20, device = 0, context = 30\<rparr>, [Log (Warn_GetDevice (- 1))])
   \<and> create env_no_device QQuickCLContextPrivate_init =
     (False, \<lparr>platform = 0, device = 0, context = 0\<rparr>,
      [Log Dbg_Creating, Log (Dbg_GLVendor (Some ''NVIDIA Corporation'')),
       Log (Dbg_FoundPlatforms 2),
       Log (Dbg_Platform 10 ''Intel(R) OpenCL''), Log (Dbg_Platform 20 ''NVIDIA CUDA''),
       Log (Dbg_UsingPlatform 20), Log (Dbg_UsingContext 30),
       Log (Warn_GetDevice (- 1)), Log (Dbg_Releasing 30), Call_clReleaseContext 30])"
proof -
  have r: "resolve_device env_no_device \<lparr>platform = 20, device = 0, context = 30\<rparr>
        [CL_CONTEXT_PLATFORM, 20, CL_GL_CONTEXT_KHR, 3, CL_GLX_DISPLAY_KHR, 2, 0]
     = (False, \<lparr>platform = 20, device = 0, context = 30\<rparr>, [Log (Warn_GetDevice (- 1))])"
    by (simp add: resolve_device_def env_no_device_def env_linux_def store_device_def
        CL_SUCCESS_def)
  from create_device_failure [OF create_context_env_no_device r]
    create_context_env_no_device r
  show ?thesis by simp
qed

text \<open>
  C4. \<^verbatim>\<open>toCLImageFormat\<close> maps the recognized formats as the table of the
  specification says: Indexed8 to (A, UNORM_INT8); RGB32, ARGB32 and premultiplied
  ARGB32 to (BGRA, UNORM_INT8) on a little-endian host and to (ARGB, UNORM_INT8)
  on a big-endian one; RGB16 to (RGB, UNORM_SHORT_565); RGB555 to
  (RGB, UNORM_SHORT_555); RGB888 to (RGB, UNORM_INT8); RGBX8888 to
  (RGBx, UNORM_INT8); RGBA8888 and premultiplied RGBA8888 to (RGBA, UNORM_INT8).
  These are eight formats, two of them also in premultiplied form, that is ten
  enumerators. Every other format value gives the pair (0, 0) and a warning, and
  no recognized format gives a zero field.
\<close>

theorem toCLImageFormat_table:
  "toCLImageFormat bo Format_Indexed8
     = (\<lparr>image_channel_order = CL_A, image_channel_data_type = CL_UNORM_INT8\<rparr>, [])
   \<and> toCLImageFormat LittleEndian Format_RGB32
     = (\<lparr>image_channel_order = CL_BGRA, image_channel_data_type = CL_UNORM_INT8\<rparr>, [])
   \<and> toCLImageFormat LittleEndian Format_ARGB32
     = (\<lparr>image_channel_order = CL_BGRA, image_channel_data_type = CL_UNORM_INT8\<rparr>, [])
   \<and> toCLImageFormat LittleEndian Format_ARGB32_Premultiplied
     = (\<lparr>image_channel_order = CL_BGRA, image_channel_data_type = CL_UNORM_INT8\<rparr>, [])
   \<and> toCLImageFormat BigEndian Format_RGB32
     = (\<lparr>image_channel_order = CL_ARGB, image_channel_data_type = CL_UNORM_INT8\<rparr>, [])
   \<and> toCLImageFormat BigEndian Format_ARGB32
     = (\<lparr>image_channel_order = CL_ARGB, image_channel_data_type = CL_UNORM_INT8\<rparr>, [])
   \<and> toCLImageFormat BigEndian Format_ARGB32_Premultiplied
     = (\<lparr>image_channel_order = CL_ARGB, image_channel_data_type = CL_UNORM_INT8\<rparr>, [])
   \<and> toCLImageFormat bo Format_RGB16
     = (\<lparr>image_channel_order = CL_RGB, image_channel_data_type = CL_UNORM_SHORT_565\<rparr>, [])
   \<and> toCLImageFormat bo Format_RGB555
     = (\<lparr>image_channel_order = CL_RGB, image_channel_data_type = CL_UNORM_SHORT_555\<rparr>, [])
   \<and> toCLImageFormat bo Format_RGB888
     = (\<lparr>image_channel_order = CL_RGB, image_channel_data_type = CL_UNORM_INT8\<rparr>, [])
   \<and> toCLImageFormat bo Format_RGBX8888
     = (\<lparr>image_channel_order = CL_RGBx, image_channel_data_type = CL_UNORM_INT8\<rparr>, [])
   \<and> toCLImageFormat bo Format_RGBA8888
     = (\<lparr>image_channel_order = CL_RGBA, image_channel_data_type = CL_UNORM_INT8\<rparr>, [])
   \<and> toCLImageFormat bo Format_RGBA8888_Premultiplied
     = (\<lparr>image_channel_order = CL_RGBA, image_channel_data_type = CL_UNORM_INT8\<rparr>, [])
   \<and> (format \<notin> {Format_Indexed8, Format_RGB32, Format_ARGB32, Format_ARGB32_Premultiplied,
                  Format_RGB16, Format_RGB555, Format_RGB888, Format_RGBX8888,
                  Format_RGBA8888, Format_RGBA8888_Premultiplied}
        \<longrightarrow> toCLImageFormat bo format
             = (\<lparr>image_channel_order = 0, image_channel_data_type = 0\<rparr>,
                [Log (Warn_UnrecognizedFormat format)]))
   \<and> (format \<in> {Format_Indexed8, Format_RGB32, Format_ARGB32, Format_ARGB32_Premultiplied,
                  Format_RGB16, Format_RGB555, Format_RGB888, Format_RGBX8888,
                  Format_RGBA8888, Format_RGBA8888_Premultiplied}
        \<longrightarrow> image_channel_order (fst (toCLImageFormat bo format)) \<noteq> 0
          \<and> image_channel_data_type (fst (toCLImageFormat bo format)) \<noteq> 0)"
proof -
  have recognized: "toCLImageFormat bo Format_Indexed8
       = (\<lparr>image_channel_order = CL_A, image_channel_data_type = CL_UNORM_INT8\<rparr>, [])"
    "toCLImageFormat bo Format_RGB16
       = (\<lparr>image_channel_order = CL_RGB, image_channel_data_type = CL_UNORM_SHORT_565\<rparr>, [])"
    "toCLImageFormat bo Format_RGB555
       = (\<lparr>image_channel_order = CL_RGB, image_channel_data_type = CL_UNORM_SHORT_555\<rparr>, [])"
    "toCLImageFormat bo Format_RGB888
       = (\<lparr>image_channel_order = CL_RGB, image_channel_data_type = CL_UNORM_INT8\<rparr>, [])"
    "toCLImageFormat bo Format_RGBX8888
       = (\<lparr>image_channel_order = CL_RGBx, image_channel_data_type = CL_UNORM_INT8\<rparr>, [])"
    "toCLImageFormat bo Format_RGBA8888
       = (\<lparr>image_channel_order = CL_RGBA, image_channel_data_type = CL_UNORM_INT8\<rparr>, [])"
    "toCLImageFormat bo Format_RGBA8888_Premultiplied
       = (\<lparr>image_channel_order = CL_RGBA, image_channel_data_type = CL_UNORM_INT8\<rparr>, [])"
    by (simp_all add: toCLImageFormat_def Format_defs)
  have rgb32: "toCLImageFormat bo Format_RGB32
       = (\<lparr>image_channel_order = (if bo = LittleEndian then CL_BGRA else CL_ARGB),
           image_channel_data_type = CL_UNORM_INT8\<rparr>, [])"
    "toCLImageFormat bo Format_ARGB32
       = (\<lparr>image_channel_order = (if bo = LittleEndian then CL_BGRA else CL_ARGB),
           image_channel_data_type = CL_UNORM_INT8\<rparr>, [])"
    "toCLImageFormat bo Format_ARGB32_Premultiplied
       = (\<lparr>image_channel_order = (if bo = LittleEndian then CL_BGRA else CL_ARGB),
           image_channel_data_type = CL_UNORM_INT8\<rparr>, [])" for bo
    by (simp_all add: toCLImageFormat_def Format_defs)
  have other: "toCLImageFormat bo format
             = (\<lparr>image_channel_order = 0, image_channel_data_type = 0\<rparr>,
                [Log (Warn_UnrecognizedFormat format)])"
    if "format \<notin> {Format_Indexed8, Format_RGB32, Format_ARGB32, Format_ARGB32_Premultiplied,
                  Format_RGB16, Format_RGB555, Format_RGB888, Format_RGBX8888,
                  Format_RGBA8888, Format_RGBA8888_Premultiplied}"
    using that by (simp add: toCLImageFormat_def)
  have nonzero: "image_channel_order (fst (toCLImageFormat bo format)) \<noteq> 0
          \<and> image_channel_data_type (fst (toCLImageFormat bo format)) \<noteq> 0"
    if "format \<in> {Format_Indexed8, Format_RGB32, Format_ARGB32, Format_ARGB32_Premultiplied,
                  Format_RGB16, Format_RGB555, Format_RGB888, Format_RGBX8888,
                  Format_RGBA8888, Format_RGBA8888_Premultiplied}"
    using that by (auto simp: recognized rgb32) (simp_all add: CL_format_defs)
  from recognized rgb32 [of LittleEndian] rgb32 [of BigEndian] other nonzero
  show ?thesis by simp
qed

theorem toCLImageFormat_table_witness:
  "0 \<notin> {Format_Indexed8, Format_RGB32, Format_ARGB32, Format_ARGB32_Premultiplied,
          Format_RGB16, Format_RGB555, Format_RGB888, Format_RGBX8888,
          Format_RGBA8888, Format_RGBA8888_Premultiplied}
   \<and> toCLImageFormat LittleEndian 0
     = (\<lparr>image_channel_order = 0, image_channel_data_type = 0\<rparr>,
        [Log (Warn_UnrecognizedFormat 0)])
   \<and> 4 \<in> {Format_Indexed8, Format_RGB32, Format_ARGB32, Format_ARGB32_Premultiplied,
          Format_RGB16, Format_RGB555, Format_RGB888, Format_RGBX8888,
          Format_RGBA8888, Format_RGBA8888_Premultiplied}
   \<and> toCLImageFormat LittleEndian 4
     = (\<lparr>image_channel_order = 0x10B6, image_channel_data_type = 0x10D2\<rparr>, [])
   \<and> image_channel_order (fst (toCLImageFormat LittleEndian 4)) \<noteq> 0
   \<and> image_channel_data_type (fst (toCLImageFormat LittleEndian 4)) \<noteq> 0"
  using toCLImageFormat_table [of LittleEndian 0] toCLImageFormat_table [of LittleEndian 4]
  by (simp add: Format_defs CL_format_defs)

text \<open>
  C5. The claim: when exactly one platform's name contains the token of the
  flagged vendor bucket, \<^verbatim>\<open>create()\<close> selects that platform. The code at one input:
  the OpenGL vendor is NVIDIA, the first platform is named \<^verbatim>\<open>OpenCL NVIDIA CUDA\<close>, the
  second one \<^verbatim>\<open>Clover\<close>, and the allocator hands the block of the array of round 1
  to round 2. \<^verbatim>\<open>resize(1024)\<close> leaves the bytes of round 1 in the array,
  \<^verbatim>\<open>clGetPlatformInfo\<close> stores \<^verbatim>\<open>Clover\<close> and its terminator over the first seven, and
  \<^verbatim>\<open>contains\<close> (line 207) searches all 1024 bytes and finds \<^verbatim>\<open>NVIDIA\<close> behind the
  terminator: \<^verbatim>\<open>create()\<close> logs the names \<^verbatim>\<open>OpenCL NVIDIA CUDA\<close> and \<^verbatim>\<open>Clover\<close> and selects
  the second platform. (\<^verbatim>\<open>platformName()\<close>, lines 315-317, fills its array with NUL
  bytes and cuts it at the terminator; with arrays that start as NUL bytes the
  loop goes by the stored names, lemma \<open>platform_loop_zeroed\<close>.)
\<close>

theorem create_selects_platform_by_stale_bytes:
  "glGetString_VENDOR env_stale = Some ''NVIDIA Corporation''
   \<and> classify_vendor (glGetString_VENDOR env_stale) = (True, False, False)
   \<and> platformIds env_stale = [10, 20]
   \<and> clGetPlatformInfo_NAME env_stale 10 = ''OpenCL NVIDIA CUDA'' @ [NUL]
   \<and> clGetPlatformInfo_NAME env_stale 20 = ''Clover'' @ [NUL]
   \<and> contains ''OpenCL NVIDIA CUDA'' ''NVIDIA''
   \<and> \<not> contains ''Clover'' ''NVIDIA''
   \<and> create env_stale QQuickCLContextPrivate_init =
       (True, \<lparr>platform = 20, device = 40, context = 30\<rparr>,
        [Log Dbg_Creating, Log (Dbg_GLVendor (Some ''NVIDIA Corporation'')),
         Log (Dbg_FoundPlatforms 2),
         Log (Dbg_Platform 10 ''OpenCL NVIDIA CUDA''), Log (Dbg_Platform 20 ''Clover''),
         Log (Dbg_UsingPlatform 20), Log (Dbg_UsingContext 30), Log (Dbg_UsingDevice 40)])"
proof -
  have e: "currentContext env_stale = 1" "clGetPlatformIDs_count env_stale = (0, 2)"
    "clGetPlatformIDs env_stale 2 = (0, [10, 20])"
    "glGetString_VENDOR env_stale = Some ''NVIDIA Corporation''"
    "target_os env_stale = Linux" "nativeResource_egldisplay env_stale = 0"
    "nativeResource_glxcontext env_stale = 3" "nativeResource_display env_stale = 2"
    "clCreateContextFromType env_stale = (\<lambda>props. (30, 0))"
    "clGetGLContextInfoKHR env_stale = Some (\<lambda>props. (0, Some 40))"
    by (simp_all add: env_stale_def env_linux_def)
  have f: "classify_vendor (Some ''NVIDIA Corporation'') = (True, False, False)"
    by (simp add: classify_vendor_def)
  have i: "platformIds env_stale = [10, 20]"
    by (simp add: platformIds_def e stored_def)
  have n: "clGetPlatformInfo_NAME env_stale 10 = ''OpenCL NVIDIA CUDA'' @ [NUL]"
    "clGetPlatformInfo_NAME env_stale 20 = ''Clover'' @ [NUL]"
    by (simp_all add: env_stale_def)
  have c: "contains ''OpenCL NVIDIA CUDA'' ''NVIDIA''" "\<not> contains ''Clover'' ''NVIDIA''"
    by simp_all
  have f': "classify_vendor (glGetString_VENDOR env_stale) = (True, False, False)"
    using e(4) f by simp
  from create_two_platforms [OF e(1-4) f platform_loop_env_stale e(5-10)]
  have r: "create env_stale QQuickCLContextPrivate_init =
       (True, \<lparr>platform = 20, device = 40, context = 30\<rparr>,
        [Log Dbg_Creating, Log (Dbg_GLVendor (Some ''NVIDIA Corporation'')),
         Log (Dbg_FoundPlatforms 2),
         Log (Dbg_Platform 10 ''OpenCL NVIDIA CUDA''), Log (Dbg_Platform 20 ''Clover''),
         Log (Dbg_UsingPlatform 20), Log (Dbg_UsingContext 30), Log (Dbg_UsingDevice 40)])"
    by simp
  show ?thesis
    by (intro conjI) (fact e(4) f' i n c r)+
qed

text \<open>
  C6. \<^verbatim>\<open>destroy()\<close> calls \<^verbatim>\<open>clReleaseContext\<close> on the context handle exactly when that
  handle is not null, and leaves platform, device and context null. On a state
  that is already all-null it does nothing (no event, same state). Two calls in a
  row leave the state of one call, the second one releasing nothing, and
  \<^verbatim>\<open>isValid()\<close> is false afterwards.
\<close>

theorem destroy_releases_and_resets:
  "destroy d =
     (\<lparr>platform = 0, device = 0, context = 0\<rparr>,
      if context d = 0 then []
      else [Log (Dbg_Releasing (context d)), Call_clReleaseContext (context d)])
   \<and> destroy \<lparr>platform = 0, device = 0, context = 0\<rparr>
       = (\<lparr>platform = 0, device = 0, context = 0\<rparr>, [])
   \<and> destroy (fst (destroy d)) = (fst (destroy d), [])
   \<and> \<not> isValid (fst (destroy d))"
  by (simp add: destroy_def isValid_def)

theorem destroy_releases_and_resets_witness:
  "destroy \<lparr>platform = 3, device = 4, context = 5\<rparr>
     = (\<lparr>platform = 0, device = 0, context = 0\<rparr>,
        [Log (Dbg_Releasing 5), Call_clReleaseContext 5])
   \<and> destroy (fst (destroy \<lparr>platform = 3, device = 4, context = 5\<rparr>))
     = (\<lparr>platform = 0, device = 0, context = 0\<rparr>, [])"
  using destroy_releases_and_resets [of "\<lparr>platform = 3, device = 4, context = 5\<rparr>"]
  by simp

text \<open>
  C7, as amended. The three bucket flags are independent tests: a flag is set
  exactly when the vendor string is not null and the token of the bucket
  (\<^verbatim>\<open>NVIDIA\<close>, \<^verbatim>\<open>Intel\<close>, \<^verbatim>\<open>ATI\<close>) occurs in it. So the number of flags set is the
  number of the three tokens that occur in the string: none for a null string,
  and at most one exactly when at most one token occurs.
\<close>

theorem classify_vendor_independent:
  "classify_vendor None = (False, False, False)
   \<and> classify_vendor (Some v) = (sublist ''NVIDIA'' v, sublist ''Intel'' v, sublist ''ATI'' v)
   \<and> flags_set (classify_vendor None) = 0
   \<and> flags_set (classify_vendor (Some v))
       = length (filter (\<lambda>tok. sublist tok v) [''NVIDIA'', ''Intel'', ''ATI''])
   \<and> (flags_set (classify_vendor (Some v)) \<le> 1)
       = (length (filter (\<lambda>tok. sublist tok v) [''NVIDIA'', ''Intel'', ''ATI'']) \<le> 1)"
  by (simp add: classify_vendor_def flags_set_def contains_sublist)

theorem classify_vendor_independent_witness:
  "classify_vendor (Some ''ATI Technologies Inc.'') = (False, False, True)
   \<and> flags_set (classify_vendor (Some ''ATI Technologies Inc.'')) = 1
   \<and> length (filter (\<lambda>tok. sublist tok ''ATI Technologies Inc.'')
        [''NVIDIA'', ''Intel'', ''ATI'']) = 1"
  using classify_vendor_independent [of "''ATI Technologies Inc.''"]
  by (simp add: contains_sublist [symmetric] flags_set_def)

text \<open>
  C7 as stated (at most one flag for every vendor string) fails for a string in
  which two tokens occur: \<^verbatim>\<open>NVIDIA CORPORATION\<close> contains \<^verbatim>\<open>NVIDIA\<close> and, inside
  \<^verbatim>\<open>CORPORATION\<close>, \<^verbatim>\<open>ATI\<close>.
\<close>

theorem classify_vendor_two_flags_counterexample:
  "classify_vendor (Some ''NVIDIA CORPORATION'') = (True, False, True)
   \<and> flags_set (classify_vendor (Some ''NVIDIA CORPORATION'')) = 2"
  by (simp add: classify_vendor_def flags_set_def)






text \<open>
  C10. The claim: with \<^verbatim>\<open>ATI\<close> in the vendor string (and neither \<^verbatim>\<open>NVIDIA\<close> nor \<^verbatim>\<open>Intel\<close>)
  the override selects only platforms whose name contains \<^verbatim>\<open>AMD\<close>, never one whose
  name contains \<^verbatim>\<open>ATI\<close> but not \<^verbatim>\<open>AMD\<close>. The code at one input: the OpenGL vendor is
  \<^verbatim>\<open>ATI Technologies Inc.\<close>, which flags the AMD bucket only; the first platform is
  named \<^verbatim>\<open>OpenCL from AMD\<close>, the second one \<^verbatim>\<open>ATI Stream\<close>, and the allocator hands the
  block of the array of round 1 to round 2. The array of round 2 holds
  \<^verbatim>\<open>ATI Stream\<close>, its terminator and, behind it, the \<^verbatim>\<open>AMD\<close> of round 1, which
  \<^verbatim>\<open>contains\<close> (line 211) finds: the override selects the platform named
  \<^verbatim>\<open>ATI Stream\<close>. (The loop does test for \<^verbatim>\<open>AMD\<close> where the vendor string is tested for
  \<^verbatim>\<open>ATI\<close>, and with arrays that start as NUL bytes it goes by the stored names,
  lemma \<open>platform_loop_zeroed\<close>.)
\<close>

theorem create_selects_ati_platform_by_stale_bytes:
  "glGetString_VENDOR env_stale_ati = Some ''ATI Technologies Inc.''
   \<and> contains ''ATI Technologies Inc.'' ''ATI''
   \<and> \<not> contains ''ATI Technologies Inc.'' ''NVIDIA''
   \<and> \<not> contains ''ATI Technologies Inc.'' ''Intel''
   \<and> classify_vendor (glGetString_VENDOR env_stale_ati) = (False, False, True)
   \<and> platformIds env_stale_ati = [10, 20]
   \<and> clGetPlatformInfo_NAME env_stale_ati 10 = ''OpenCL from AMD'' @ [NUL]
   \<and> clGetPlatformInfo_NAME env_stale_ati 20 = ''ATI Stream'' @ [NUL]
   \<and> contains ''ATI Stream'' ''ATI''
   \<and> \<not> contains ''ATI Stream'' ''AMD''
   \<and> create env_stale_ati QQuickCLContextPrivate_init =
       (True, \<lparr>platform = 20, device = 40, context = 30\<rparr>,
        [Log Dbg_Creating, Log (Dbg_GLVendor (Some ''ATI Technologies Inc.'')),
         Log (Dbg_FoundPlatforms 2),
         Log (Dbg_Platform 10 ''OpenCL from AMD''), Log (Dbg_Platform 20 ''ATI Stream''),
         Log (Dbg_UsingPlatform 20), Log (Dbg_UsingContext 30), Log (Dbg_UsingDevice 40)])"
proof -
  have e: "currentContext env_stale_ati = 1" "clGetPlatformIDs_count env_stale_ati = (0, 2)"
    "clGetPlatformIDs env_stale_ati 2 = (0, [10, 20])"
    "glGetString_VENDOR env_stale_ati = Some ''ATI Technologies Inc.''"
    "target_os env_stale_ati = Linux" "nativeResource_egldisplay env_stale_ati = 0"
    "nativeResource_glxcontext env_stale_ati = 3" "nativeResource_display env_stale_ati = 2"
    "clCreateContextFromType env_stale_ati = (\<lambda>props. (30, 0))"
    "clGetGLContextInfoKHR env_stale_ati = Some (\<lambda>props. (0, Some 40))"
    by (simp_all add: env_stale_ati_def env_linux_def)
  have c: "contains ''ATI Technologies Inc.'' ''ATI''"
    "\<not> contains ''ATI Technologies Inc.'' ''NVIDIA''"
    "\<not> contains ''ATI Technologies Inc.'' ''Intel''"
    "contains ''ATI Stream'' ''ATI''" "\<not> contains ''ATI Stream'' ''AMD''"
    by simp_all
  have f: "classify_vendor (Some ''ATI Technologies Inc.'') = (False, False, True)"
    by (simp add: classify_vendor_def)
  have i: "platformIds env_stale_ati = [10, 20]"
    by (simp add: platformIds_def e stored_def)
  have n: "clGetPlatformInfo_NAME env_stale_ati 10 = ''OpenCL from AMD'' @ [NUL]"
    "clGetPlatformInfo_NAME env_stale_ati 20 = ''ATI Stream'' @ [NUL]"
    by (simp_all add: env_stale_ati_def)
  have f': "classify_vendor (glGetString_VENDOR env_stale_ati) = (False, False, True)"
    using e(4) f by simp
  from create_two_platforms [OF e(1-4) f platform_loop_env_stale_ati e(5-10)]
  have r: "create env_stale_ati QQuickCLContextPrivate_init =
       (True, \<lparr>platform = 20, device = 40, context = 30\<rparr>,
        [Log Dbg_Creating, Log (Dbg_GLVendor (Some ''ATI Technologies Inc.'')),
         Log (Dbg_FoundPlatforms 2),
         Log (Dbg_Platform 10 ''OpenCL from AMD''), Log (Dbg_Platform 20 ''ATI Stream''),
         Log (Dbg_UsingPlatform 20), Log (Dbg_UsingContext 30), Log (Dbg_UsingDevice 40)])"
    by simp
  show ?thesis
    by (intro conjI) (fact e(4) f' i n c r)+
qed

end
